theory Spec2Isabelle
  imports Complex_Main "HOL-Library.AList" "HOL-Library.Sublist" "HOL-Library.Multiset"
begin

section \<open>JavaScript values\<close>

text \<open>
  The application of \<^verbatim>\<open>src/App.jsx\<close> keeps its products as plain JavaScript objects
  that it receives from the document store, and it updates them with object spread and
  computed keys (\<^verbatim>\<open>{ ...link, [field]: value }\<close>). The values are therefore
  modelled dynamically. A number is the rational it denotes (every finite double is one;
  the documents of the application hold numbers only as \<^verbatim>\<open>Date.now()\<close> timestamps),
  a string is a list of characters, an array is a list and an object is the list of its
  own properties, each key once.

  The development covers the snapshot callback, the mutation handlers and the filter.
  The two metric helpers, \<^verbatim>\<open>calculateRoas\<close> and \<^verbatim>\<open>formatCurrency\<close>, work on
  doubles throughout (\<^verbatim>\<open>parseFloat\<close>, division, \<^verbatim>\<open>toFixed\<close>,
  \<^verbatim>\<open>Intl.NumberFormat\<close>) and are not embedded.
\<close>

datatype jsval =
    Undefined
  | Null
  | Bool bool
  | Num rat
  | Str string
  | Arr "jsval list"
  | Obj "(string \<times> jsval) list"

type_synonym jsobj = "(string \<times> jsval) list"

text \<open>
  What the code can throw: a TypeError or a SyntaxError of the language, and
  \<open>FirestoreError\<close> for whatever a call into the store throws.
\<close>

datatype error = TypeError | SyntaxError | FirestoreError

text \<open>\<^verbatim>\<open>!!v\<close>: the falsy values are undefined, null, false, 0 and the empty string.\<close>

fun truthy :: "jsval \<Rightarrow> bool" where
  "truthy Undefined = False"
| "truthy Null = False"
| "truthy (Bool b) = b"
| "truthy (Num n) = (n \<noteq> 0)"
| "truthy (Str s) = (s \<noteq> [])"
| "truthy (Arr xs) = True"
| "truthy (Obj ps) = True"

text \<open>\<^verbatim>\<open>a || b\<close>\<close>

definition or_else :: "jsval \<Rightarrow> jsval \<Rightarrow> jsval" where
  "or_else a b = (if truthy a then a else b)"

text \<open>\<^verbatim>\<open>o.f\<close> on an object: the property, or undefined when the object has none.\<close>

definition get_field :: "jsobj \<Rightarrow> string \<Rightarrow> jsval" where
  "get_field ob f = (case map_of ob f of None \<Rightarrow> Undefined | Some v \<Rightarrow> v)"

text \<open>
  \<^verbatim>\<open>x.id\<close> on any value: reading a property of undefined or null throws a TypeError;
  a boolean, a number, a string and an array have no property \<^verbatim>\<open>id\<close>.
\<close>

fun member_id :: "jsval \<Rightarrow> error + jsval" where
  "member_id Undefined = Inl TypeError"
| "member_id Null = Inl TypeError"
| "member_id (Obj ps) = Inr (get_field ps ''id'')"
| "member_id v = Inr Undefined"

text \<open>Decimal digits of an array index, for the keys an array or a string spreads to.\<close>

fun index_key :: "nat \<Rightarrow> string" where
  "index_key n =
     (if n < 10 then [char_of (48 + n)] else index_key (n div 10) @ [char_of (48 + n mod 10)])"

declare index_key.simps [simp del]

text \<open>
  \<^verbatim>\<open>{ ...x }\<close>: the own enumerable properties of \<open>x\<close>. Undefined, null, booleans and
  numbers have none; a string and an array spread to their elements under the keys
  0, 1, ...
\<close>

fun object_spread :: "jsval \<Rightarrow> jsobj" where
  "object_spread (Obj ps) = ps"
| "object_spread (Arr xs) = zip (map index_key [0..<length xs]) xs"
| "object_spread (Str s) = zip (map index_key [0..<length s]) (map (\<lambda>c. Str [c]) s)"
| "object_spread v = []"

text \<open>
  \<^verbatim>\<open>[...x]\<close>: only an iterable spreads into an array literal; of the values here
  these are the arrays and the strings, anything else throws a TypeError.
\<close>

fun array_spread :: "jsval \<Rightarrow> error + jsval list" where
  "array_spread (Arr xs) = Inr xs"
| "array_spread (Str s) = Inr (map (\<lambda>c. Str [c]) s)"
| "array_spread v = Inl TypeError"

text \<open>\<^verbatim>\<open>xs[i]\<close>: undefined beyond the end.\<close>

definition array_get :: "jsval list \<Rightarrow> nat \<Rightarrow> jsval" where
  "array_get xs i = (if i < length xs then xs ! i else Undefined)"

text \<open>
  \<^verbatim>\<open>xs[i] = v\<close>: an assignment beyond the end extends the array; the slots in
  between are holes, which read as undefined.
\<close>

definition array_set :: "jsval list \<Rightarrow> nat \<Rightarrow> jsval \<Rightarrow> jsval list" where
  "array_set xs i v =
     (if i < length xs then xs[i := v]
      else xs @ replicate (i - length xs) Undefined @ [v])"

section \<open>Application state and the document store\<close>

text \<open>
  The state hooks of \<^verbatim>\<open>App\<close>. \<open>user\<close> holds the uid of the signed-in user, and
  \<open>selectedId\<close> is \<open>None\<close> for \<^verbatim>\<open>null\<close>.
\<close>

record app =
  user :: "string option"
  products :: "jsobj list"
  selectedId :: "string option"
  searchQuery :: string
  loading :: bool
  authChecking :: bool

text \<open>
  A call of the document store that a handler issues: \<^verbatim>\<open>setDoc(doc(db, ..., uid,
  "products", key), data)\<close>, with or without \<^verbatim>\<open>{ merge: true }\<close>, and
  \<^verbatim>\<open>deleteDoc\<close>. The calls are asynchronous: a handler issues them, and the store
  applies each one later, or rejects it.
\<close>

datatype cmd =
    SetDoc string string jsobj bool
  | DeleteDoc string string

text \<open>The remote collections: the document under a uid and a key.\<close>

type_synonym store = "string \<times> string \<rightharpoonup> jsobj"

text \<open>
  A merge write sets the fields of its payload and keeps the other fields of the
  document. (The payloads of the handlers hold one field with a text, a flag or an array;
  a nested map, which the store would merge field by field, is in none of them.)
\<close>

definition merge_fields :: "jsobj \<Rightarrow> jsobj \<Rightarrow> jsobj" where
  "merge_fields old new = fold (\<lambda>(k, v). AList.update k v) new old"

fun apply_cmd :: "store \<Rightarrow> cmd \<Rightarrow> store" where
  "apply_cmd r (SetDoc uid key payload merge) =
     (if merge
      then r((uid, key) \<mapsto> merge_fields (case r (uid, key) of None \<Rightarrow> [] | Some d \<Rightarrow> d) payload)
      else r((uid, key) \<mapsto> payload))"
| "apply_cmd r (DeleteDoc uid key) = r((uid, key) := None)"

text \<open>
  The store runs the issued calls in order; \<open>ok\<close> tells which of them succeed, a
  rejected one leaves the store as it is.
\<close>

fun apply_cmds :: "(cmd \<Rightarrow> bool) \<Rightarrow> store \<Rightarrow> cmd list \<Rightarrow> store" where
  "apply_cmds ok r [] = r"
| "apply_cmds ok r (c # cs) = apply_cmds ok (if ok c then apply_cmd r c else r) cs"

section \<open>The mutation handlers\<close>

text \<open>\<^verbatim>\<open>products.find((p) => p.id === productId)\<close>\<close>

definition find_product :: "jsobj list \<Rightarrow> string \<Rightarrow> jsobj option" where
  "find_product ps productId = find (\<lambda>p. get_field p ''id'' = Str productId) ps"

text \<open>\<^verbatim>\<open>s.includes(q)\<close>: \<open>q\<close> occurs in \<open>s\<close> as a run of consecutive characters.\<close>

fun str_includes :: "string \<Rightarrow> string \<Rightarrow> bool" where
  "str_includes [] q = (q = [])"
| "str_includes (c # cs) q = (prefix q (c # cs) \<or> str_includes cs q)"

text \<open>
  \<^verbatim>\<open>doc(db, "artifacts", appId, "users", user.uid, "products", id)\<close>. The store
  throws on an id that is not a string or that holds two slashes in a row. It splits
  the id at its slashes and drops the empty segments; the five segments before the id
  and the segments of the id must make an even number, or the store throws. So the
  empty id and an id such as \<^verbatim>\<open>a/b\<close> throw, and an id without a slash names the
  document of that key. The key of the reference is its path below the collection.
\<close>

fun split_path :: "string \<Rightarrow> string \<Rightarrow> string list" where
  "split_path seg [] = (if seg = [] then [] else [seg])"
| "split_path seg (c # cs) =
     (if c = CHR ''/'' then (if seg = [] then [] else [seg]) @ split_path [] cs
      else split_path (seg @ [c]) cs)"

fun join_path :: "string list \<Rightarrow> string" where
  "join_path [] = []"
| "join_path [s] = s"
| "join_path (s # t # ss) = s @ ''/'' @ join_path (t # ss)"

fun doc_key :: "jsval \<Rightarrow> error + string" where
  "doc_key (Str s) =
     (if str_includes s ''//'' \<or> even (length (split_path [] s)) then Inl FirestoreError
      else Inr (join_path (split_path [] s)))"
| "doc_key v = Inl FirestoreError"

text \<open>
  A handler leaves the state hooks as they are or sets some, and issues calls of the
  store; it returns both. A handler that throws returns the error: it has then set and
  issued nothing.

  \<^verbatim>\<open>handleUpdateProduct\<close> makes the reference, then issues one merge write of the
  single field inside a \<^verbatim>\<open>try\<close>. A write that the store refuses or rejects is
  caught and logged, so it only shows in what the store applies (the \<open>ok\<close> of
  \<open>apply_cmds\<close>).
\<close>

definition handleUpdateProduct ::
    "app \<Rightarrow> string \<Rightarrow> string \<Rightarrow> jsval \<Rightarrow> error + app \<times> cmd list" where
  "handleUpdateProduct st ident field val =
     (case user st of
        None \<Rightarrow> Inr (st, [])
      | Some uid \<Rightarrow>
          (case doc_key (Str ident) of
             Inl e \<Rightarrow> Inl e
           | Inr key \<Rightarrow> Inr (st, [SetDoc uid key [(field, val)] True])))"

text \<open>
  The other handlers call \<^verbatim>\<open>handleUpdateProduct\<close> without \<^verbatim>\<open>await\<close>: when it
  throws, its promise is rejected and nobody looks at it.
\<close>

definition not_awaited :: "app \<Rightarrow> error + app \<times> cmd list \<Rightarrow> app \<times> cmd list" where
  "not_awaited st r = (case r of Inl e \<Rightarrow> (st, []) | Inr res \<Rightarrow> res)"

definition handleUpdateCompetitor ::
    "app \<Rightarrow> string \<Rightarrow> nat \<Rightarrow> string \<Rightarrow> jsval \<Rightarrow> error + app \<times> cmd list" where
  "handleUpdateCompetitor st productId compIndex field val =
     (if user st = None then Inr (st, [])
      else case find_product (products st) productId of
        None \<Rightarrow> Inr (st, [])
      | Some product \<Rightarrow>
          (case array_spread (get_field product ''competitors'') of
             Inl e \<Rightarrow> Inl e
           | Inr newCompetitors \<Rightarrow>
               Inr (not_awaited st (handleUpdateProduct st productId ''competitors''
                 (Arr (array_set newCompetitors compIndex
                    (Obj (AList.update field val
                       (object_spread (array_get newCompetitors compIndex))))))))))"

text \<open>
  \<^verbatim>\<open>(product.otherLinks || [])\<close> as the receiver of \<^verbatim>\<open>.map\<close> and
  \<^verbatim>\<open>.filter\<close>: only an array has these methods, on any other truthy value the call
  throws a TypeError.
\<close>

definition links_of :: "jsobj \<Rightarrow> error + jsval list" where
  "links_of product =
     (case or_else (get_field product ''otherLinks'') (Arr []) of
        Arr links \<Rightarrow> Inr links
      | _ \<Rightarrow> Inl TypeError)"

text \<open>
  \<^verbatim>\<open>[...(product.otherLinks || []), { id: generateId(), title: "", url: "" }]\<close>;
  \<open>newId\<close> is the identifier that \<^verbatim>\<open>generateId()\<close> draws.
\<close>

definition handleAddOtherLink :: "app \<Rightarrow> string \<Rightarrow> string \<Rightarrow> error + app \<times> cmd list" where
  "handleAddOtherLink st newId productId =
     (if user st = None then Inr (st, [])
      else case find_product (products st) productId of
        None \<Rightarrow> Inr (st, [])
      | Some product \<Rightarrow>
          (case array_spread (or_else (get_field product ''otherLinks'') (Arr [])) of
             Inl e \<Rightarrow> Inl e
           | Inr links \<Rightarrow>
               Inr (not_awaited st (handleUpdateProduct st productId ''otherLinks''
                 (Arr (links @
                    [Obj [(''id'', Str newId), (''title'', Str []), (''url'', Str [])]]))))))"

text \<open>
  \<^verbatim>\<open>.map((link) => link.id === linkId ? { ...link, [field]: value } : link)\<close>:
  the callback runs on the links from first to last and the first throw ends the call.
\<close>

fun update_links :: "string \<Rightarrow> string \<Rightarrow> jsval \<Rightarrow> jsval list \<Rightarrow> error + jsval list" where
  "update_links linkId field val [] = Inr []"
| "update_links linkId field val (link # rest) =
     (case member_id link of
        Inl e \<Rightarrow> Inl e
      | Inr i \<Rightarrow>
          (case update_links linkId field val rest of
             Inl e \<Rightarrow> Inl e
           | Inr rest' \<Rightarrow>
               Inr ((if i = Str linkId
                     then Obj (AList.update field val (object_spread link))
                     else link) # rest')))"

definition handleUpdateOtherLink ::
    "app \<Rightarrow> string \<Rightarrow> string \<Rightarrow> string \<Rightarrow> jsval \<Rightarrow> error + app \<times> cmd list" where
  "handleUpdateOtherLink st productId linkId field val =
     (if user st = None then Inr (st, [])
      else case find_product (products st) productId of
        None \<Rightarrow> Inr (st, [])
      | Some product \<Rightarrow>
          (case links_of product of
             Inl e \<Rightarrow> Inl e
           | Inr links \<Rightarrow>
               (case update_links linkId field val links of
                  Inl e \<Rightarrow> Inl e
                | Inr newLinks \<Rightarrow>
                    Inr (not_awaited st
                      (handleUpdateProduct st productId ''otherLinks'' (Arr newLinks))))))"

text \<open>\<^verbatim>\<open>.filter((link) => link.id !== linkId)\<close>\<close>

fun delete_links :: "string \<Rightarrow> jsval list \<Rightarrow> error + jsval list" where
  "delete_links linkId [] = Inr []"
| "delete_links linkId (link # rest) =
     (case member_id link of
        Inl e \<Rightarrow> Inl e
      | Inr i \<Rightarrow>
          (case delete_links linkId rest of
             Inl e \<Rightarrow> Inl e
           | Inr rest' \<Rightarrow> Inr (if i \<noteq> Str linkId then link # rest' else rest')))"

definition handleDeleteOtherLink ::
    "app \<Rightarrow> string \<Rightarrow> string \<Rightarrow> error + app \<times> cmd list" where
  "handleDeleteOtherLink st productId linkId =
     (if user st = None then Inr (st, [])
      else case find_product (products st) productId of
        None \<Rightarrow> Inr (st, [])
      | Some product \<Rightarrow>
          (case links_of product of
             Inl e \<Rightarrow> Inl e
           | Inr links \<Rightarrow>
               (case delete_links linkId links of
                  Inl e \<Rightarrow> Inl e
                | Inr newLinks \<Rightarrow>
                    Inr (not_awaited st
                      (handleUpdateProduct st productId ''otherLinks'' (Arr newLinks))))))"

text \<open>
  \<^verbatim>\<open>handleDeleteProduct\<close> makes the reference and awaits \<^verbatim>\<open>deleteDoc\<close> inside
  a \<^verbatim>\<open>try\<close>; \<open>deleted\<close> tells whether the awaited call resolves. When the
  reference or the call fails, the \<^verbatim>\<open>catch\<close> logs the error and
  \<^verbatim>\<open>setSelectedId(null)\<close> is skipped. (The event argument only stops the click
  from reaching the row behind the button; it is left out.)
\<close>

definition handleDeleteProduct :: "bool \<Rightarrow> app \<Rightarrow> string \<Rightarrow> app \<times> cmd list" where
  "handleDeleteProduct deleted st ident =
     (case user st of
        None \<Rightarrow> (st, [])
      | Some uid \<Rightarrow>
          (case doc_key (Str ident) of
             Inl e \<Rightarrow> (st, [])
           | Inr key \<Rightarrow>
               (if deleted then st\<lparr>selectedId := None\<rparr> else st, [DeleteDoc uid key])))"

section \<open>The filter\<close>

text \<open>
  \<^verbatim>\<open>s.toLowerCase()\<close>. A character of the model is a code unit below 256, so the
  strings are those of Latin-1. On them the method maps each capital to the letter 32
  above it and keeps every other code unit: the capitals are A to Z (65 to 90) and
  U+00C0 to U+00DE (192 to 222) without the multiplication sign U+00D7 (215).
\<close>

definition lower_char :: "char \<Rightarrow> char" where
  "lower_char c =
     (let n = (of_char c :: nat)
      in if (65 \<le> n \<and> n \<le> 90) \<or> (192 \<le> n \<and> n \<le> 214) \<or> (216 \<le> n \<and> n \<le> 222)
         then char_of (n + 32) else c)"

definition toLowerCase :: "string \<Rightarrow> string" where
  "toLowerCase s = map lower_char s"

text \<open>
  \<^verbatim>\<open>v.toLowerCase()\<close> on a property that was read from a product: only a string has
  the method, the call throws a TypeError on anything else.
\<close>

fun lower_of :: "jsval \<Rightarrow> error + string" where
  "lower_of (Str s) = Inr (toLowerCase s)"
| "lower_of v = Inl TypeError"

text \<open>
  The callback of the filter. \<^verbatim>\<open>||\<close> reads the status only when the name does
  not match.
\<close>

definition matches :: "string \<Rightarrow> jsobj \<Rightarrow> error + bool" where
  "matches query p =
     (case lower_of (get_field p ''name'') of
        Inl e \<Rightarrow> Inl e
      | Inr name \<Rightarrow>
          if str_includes name (toLowerCase query) then Inr True
          else (case lower_of (get_field p ''status'') of
                  Inl e \<Rightarrow> Inl e
                | Inr status \<Rightarrow> Inr (str_includes status (toLowerCase query))))"

fun filter_products :: "string \<Rightarrow> jsobj list \<Rightarrow> error + jsobj list" where
  "filter_products query [] = Inr []"
| "filter_products query (p # ps) =
     (case matches query p of
        Inl e \<Rightarrow> Inl e
      | Inr keep \<Rightarrow>
          (case filter_products query ps of
             Inl e \<Rightarrow> Inl e
           | Inr rest \<Rightarrow> Inr (if keep then p # rest else rest)))"

definition filteredProducts :: "app \<Rightarrow> error + jsobj list" where
  "filteredProducts st = filter_products (searchQuery st) (products st)"

section \<open>The snapshot callback\<close>

definition LOCAL_STORAGE_KEY :: string where
  "LOCAL_STORAGE_KEY = ''dropship_tracker_v1''"

text \<open>\<^verbatim>\<open>{ ...doc.data(), id: doc.id }\<close> for a document with its key and its data.\<close>

definition item_of :: "string \<times> jsobj \<Rightarrow> jsobj" where
  "item_of d = AList.update ''id'' (Str (fst d)) (snd d)"

text \<open>
  The operands of the subtraction in the comparator become numbers. \<open>None\<close> stands for
  NaN and for the conversions that go through a string (of a string, an array or an
  object), which are not modelled.
\<close>

fun to_number :: "jsval \<Rightarrow> rat option" where
  "to_number (Num n) = Some n"
| "to_number (Bool b) = Some (if b then 1 else 0)"
| "to_number Null = Some 0"
| "to_number v = None"

text \<open>\<^verbatim>\<open>(p.createdAt || 0)\<close> as a number.\<close>

definition created :: "jsobj \<Rightarrow> rat option" where
  "created p = to_number (or_else (get_field p ''createdAt'') (Num 0))"

text \<open>
  \<^verbatim>\<open>(a, b) => (b.createdAt || 0) - (a.createdAt || 0)\<close>. The sort reads the sign
  of the result only, and the sign of a difference of two doubles is the sign of their
  exact difference.
\<close>

definition compare_created :: "jsobj \<Rightarrow> jsobj \<Rightarrow> rat option" where
  "compare_created a b =
     (case created b of
        None \<Rightarrow> None
      | Some y \<Rightarrow> (case created a of None \<Rightarrow> None | Some x \<Rightarrow> Some (y - x)))"

text \<open>
  \<^verbatim>\<open>items.sort(cmp)\<close>. The language requires the sort to be stable and to follow the
  comparator when the comparator is consistent, which fixes the result; an insertion
  sort computes it. When a comparison yields NaN the order is left to the engine, and
  the model returns \<open>None\<close>.
\<close>

fun insert_sorted :: "('a \<Rightarrow> 'a \<Rightarrow> rat option) \<Rightarrow> 'a \<Rightarrow> 'a list \<Rightarrow> 'a list option" where
  "insert_sorted cmp x [] = Some [x]"
| "insert_sorted cmp x (y # ys) =
     (case cmp x y of
        None \<Rightarrow> None
      | Some d \<Rightarrow>
          if d \<le> 0 then Some (x # y # ys)
          else map_option ((#) y) (insert_sorted cmp x ys))"

fun js_sort :: "('a \<Rightarrow> 'a \<Rightarrow> rat option) \<Rightarrow> 'a list \<Rightarrow> 'a list option" where
  "js_sort cmp [] = Some []"
| "js_sort cmp (x # xs) =
     (case js_sort cmp xs of None \<Rightarrow> None | Some ys \<Rightarrow> insert_sorted cmp x ys)"

text \<open>
  \<^verbatim>\<open>localData.forEach((prod) => { setDoc(doc(..., prod.id), prod); })\<close>: the calls
  issued, and the error when a round of the loop throws, which ends the loop.
  \<^verbatim>\<open>setDoc\<close> checks its payload before it returns and throws when the store cannot
  hold it; \<open>accepts\<close> is that check. The write has no \<^verbatim>\<open>merge\<close> option and is
  not awaited, so a later rejection is not seen here.
\<close>

fun migrate :: "(jsobj \<Rightarrow> bool) \<Rightarrow> string \<Rightarrow> jsval list \<Rightarrow> cmd list \<times> error option" where
  "migrate accepts uid [] = ([], None)"
| "migrate accepts uid (rec # rest) =
     (case member_id rec of
        Inl e \<Rightarrow> ([], Some e)
      | Inr i \<Rightarrow>
          (case doc_key i of
             Inl e \<Rightarrow> ([], Some e)
           | Inr key \<Rightarrow>
               (case rec of
                  Obj data \<Rightarrow>
                    if accepts data
                    then (case migrate accepts uid rest of
                            (cs, e) \<Rightarrow> (SetDoc uid key data False # cs, e))
                    else ([], Some FirestoreError)
                | _ \<Rightarrow> ([], Some FirestoreError))))"

text \<open>
  What a run of the callback leaves: the state hooks, the local storage, the calls of
  the store it issued and the error it threw, if any.
\<close>

record outcome =
  state :: app
  storage :: "string \<rightharpoonup> string"
  issued :: "cmd list"
  thrown :: "error option"

text \<open>
  The success callback of \<^verbatim>\<open>onSnapshot\<close>, registered for the signed-in user \<open>uid\<close>.
  The snapshot is the list of its documents, each with its key and its data, in the
  order of \<^verbatim>\<open>snapshot.forEach\<close>. \<open>parse\<close> is \<^verbatim>\<open>JSON.parse\<close>, \<open>None\<close> when it
  throws a SyntaxError, and \<open>accepts\<close> is the check of \<^verbatim>\<open>setDoc\<close>. The
  result is \<open>None\<close> when the order of the sort is left to the engine.
\<close>

definition onSnapshot ::
    "(string \<Rightarrow> jsval option) \<Rightarrow> (jsobj \<Rightarrow> bool) \<Rightarrow> string \<Rightarrow> app \<Rightarrow> (string \<rightharpoonup> string) \<Rightarrow>
       (string \<times> jsobj) list \<Rightarrow> outcome option" where
  "onSnapshot parse accepts uid st localStorage snapshot =
     (case js_sort compare_created (map item_of snapshot) of
        None \<Rightarrow> None
      | Some items \<Rightarrow>
          (let st' = st\<lparr>products := items, loading := False\<rparr>;
               base = \<lparr>state = st', storage = localStorage, issued = [], thrown = None\<rparr>
           in if length items = 0
              then (case localStorage LOCAL_STORAGE_KEY of
                      None \<Rightarrow> Some base
                    | Some savedLocal \<Rightarrow>
                        if savedLocal = [] then Some base
                        else (case parse savedLocal of
                                None \<Rightarrow> Some (base\<lparr>thrown := Some SyntaxError\<rparr>)
                              | Some (Arr localData) \<Rightarrow>
                                  (case migrate accepts uid localData of
                                     (cs, Some e) \<Rightarrow> Some (base\<lparr>issued := cs, thrown := Some e\<rparr>)
                                   | (cs, None) \<Rightarrow>
                                       Some (base\<lparr>issued := cs,
                                         storage := localStorage(LOCAL_STORAGE_KEY := None)\<rparr>))
                              | Some _ \<Rightarrow> Some (base\<lparr>thrown := Some TypeError\<rparr>)))
              else Some base))"

section \<open>Vocabulary of the properties\<close>

text \<open>The identifier of a link, and the links whose properties can be read.\<close>

definition link_id :: "jsval \<Rightarrow> jsval" where
  "link_id link = (case link of Obj ob \<Rightarrow> get_field ob ''id'' | _ \<Rightarrow> Undefined)"

definition readable :: "jsval \<Rightarrow> bool" where
  "readable link = (link \<noteq> Undefined \<and> link \<noteq> Null)"

text \<open>The sort key of a product: its \<^verbatim>\<open>createdAt\<close>, or 0.\<close>

definition created_key :: "jsobj \<Rightarrow> rat" where
  "created_key p = (case created p of None \<Rightarrow> 0 | Some x \<Rightarrow> x)"

text \<open>
  A cached record can be issued when it is an object whose \<^verbatim>\<open>id\<close> makes a document
  reference and whose payload the store accepts. Its key is the key of that reference,
  and the migration issues for it a write of the whole record without merge.
\<close>

definition issuable :: "(jsobj \<Rightarrow> bool) \<Rightarrow> jsval \<Rightarrow> bool" where
  "issuable accepts rec =
     (case rec of
        Obj data \<Rightarrow> (case doc_key (get_field data ''id'') of Inl e \<Rightarrow> False | Inr k \<Rightarrow> accepts data)
      | _ \<Rightarrow> False)"

definition record_key :: "jsval \<Rightarrow> string" where
  "record_key rec = (case doc_key (link_id rec) of Inl e \<Rightarrow> [] | Inr k \<Rightarrow> k)"

definition migration_write :: "string \<Rightarrow> jsval \<Rightarrow> cmd" where
  "migration_write uid rec = SetDoc uid (record_key rec) (object_spread rec) False"

text \<open>
  A text property of a product, and the match of the filter as the specification words
  it: the text, case-folded, contains the case-folded query as a substring. A product is
  shown when its name or its status matches. The filter throws on a product whose name
  is not a string, and on one whose name does not match and whose status is not a
  string.
\<close>

definition text_of :: "jsobj \<Rightarrow> string \<Rightarrow> string" where
  "text_of p f = (case get_field p f of Str s \<Rightarrow> s | _ \<Rightarrow> [])"

definition is_text :: "jsval \<Rightarrow> bool" where
  "is_text v = (case v of Str s \<Rightarrow> True | _ \<Rightarrow> False)"

definition contains_folded :: "string \<Rightarrow> string \<Rightarrow> bool" where
  "contains_folded query s = sublist (toLowerCase query) (toLowerCase s)"

definition shown_by :: "string \<Rightarrow> jsobj \<Rightarrow> bool" where
  "shown_by query p =
     (contains_folded query (text_of p ''name'') \<or> contains_folded query (text_of p ''status''))"

definition filter_throws :: "string \<Rightarrow> jsobj \<Rightarrow> bool" where
  "filter_throws query p =
     (\<not> is_text (get_field p ''name'')
      \<or> (\<not> contains_folded query (text_of p ''name'') \<and> \<not> is_text (get_field p ''status'')))"

section \<open>Example data\<close>

definition widget :: jsobj where
  "widget =
     [(''id'', Str ''p1''), (''name'', Str ''Widget Pro''), (''status'', Str ''Pending''),
      (''competitors'',
         Arr [Obj [(''brand'', Str ''A''), (''adLink'', Str ''a'')],
              Obj [(''brand'', Str ''B''), (''adLink'', Str ''b'')],
              Obj [(''brand'', Str ''C''), (''adLink'', Str ''c'')]]),
      (''otherLinks'',
         Arr [Obj [(''id'', Str ''l1''), (''title'', Str ''one''), (''url'', Str ''x'')],
              Obj [(''id'', Str ''l2''), (''title'', Str ''two''), (''url'', Str ''y'')],
              Obj [(''id'', Str ''l3''), (''title'', Str ''three''), (''url'', Str ''z'')]]),
      (''createdAt'', Num 100)]"

definition gadget :: jsobj where
  "gadget = [(''id'', Str ''p2''), (''name'', Str ''Gadget''), (''status'', Str ''Approved'')]"

definition example_app :: app where
  "example_app =
     \<lparr>user = Some ''u1'', products = [widget, gadget], selectedId = Some ''p1'',
      searchQuery = ''pro'', loading = False, authChecking = False\<rparr>"

text \<open>
  A snapshot of three documents whose \<^verbatim>\<open>createdAt\<close> are 100, missing and 300; the
  body of the second holds an \<^verbatim>\<open>id\<close> that differs from its key.
\<close>

definition example_snapshot :: "(string \<times> jsobj) list" where
  "example_snapshot =
     [(''a'', [(''name'', Str ''first''), (''createdAt'', Num 100)]),
      (''b'', [(''id'', Str ''stale''), (''name'', Str ''second'')]),
      (''c'', [(''name'', Str ''third''), (''createdAt'', Num 300)])]"

text \<open>A local cache of two records, and \<^verbatim>\<open>JSON.parse\<close> on its text.\<close>

definition cached_text :: string where
  \<open>cached_text = ''[{"id":"p1","name":"Widget Pro"},{"id":"p2","name":"Gadget"}]''\<close>

definition cached_records :: "jsval list" where
  "cached_records =
     [Obj [(''id'', Str ''p1''), (''name'', Str ''Widget Pro'')],
      Obj [(''id'', Str ''p2''), (''name'', Str ''Gadget'')]]"

definition example_parse :: "string \<Rightarrow> jsval option" where
  "example_parse s = (if s = cached_text then Some (Arr cached_records) else None)"

definition example_storage :: "string \<rightharpoonup> string" where
  "example_storage = [LOCAL_STORAGE_KEY \<mapsto> cached_text]"

text \<open>A local cache whose second record has no \<^verbatim>\<open>id\<close>.\<close>

definition broken_text :: string where
  \<open>broken_text = ''[{"id":"p1","name":"Widget Pro"},{"name":"Gadget"}]''\<close>

definition broken_parse :: "string \<Rightarrow> jsval option" where
  "broken_parse s =
     (if s = broken_text
      then Some (Arr [Obj [(''id'', Str ''p1''), (''name'', Str ''Widget Pro'')],
                      Obj [(''name'', Str ''Gadget'')]])
      else None)"

definition broken_storage :: "string \<rightharpoonup> string" where
  "broken_storage = [LOCAL_STORAGE_KEY \<mapsto> broken_text]"

text \<open>
  A product whose name holds capitals of Latin-1: \<^verbatim>\<open>ECOLE\<close> with E acute (201) first,
  and the query \<^verbatim>\<open>ecole\<close> with e acute (233) first.
\<close>

definition ecole :: jsobj where
  "ecole =
     [(''id'', Str ''p3''), (''name'', Str (CHR 0xC9 # ''COLE'')), (''status'', Str ''Pending'')]"

definition ecole_app :: app where
  "ecole_app =
     \<lparr>user = Some ''u1'', products = [ecole, gadget], selectedId = None,
      searchQuery = CHR 0xE9 # ''cole'', loading = False, authChecking = False\<rparr>"

text \<open>A collection whose second product has no status.\<close>

definition untyped_app :: app where
  "untyped_app =
     \<lparr>user = Some ''u1'', products = [widget, [(''id'', Str ''p4''), (''name'', Str ''Gizmo'')]],
      selectedId = None, searchQuery = ''pro'', loading = False, authChecking = False\<rparr>"

section \<open>Reading and writing the fields of an object\<close>

lemma get_field_update:
  "get_field (AList.update f v ob) g = (if g = f then v else get_field ob g)"
  by (simp add: get_field_def update_conv')

lemma find_product_None:
  "\<forall>p \<in> set ps. get_field p ''id'' \<noteq> Str productId \<Longrightarrow> find_product ps productId = None"
  by (simp add: find_product_def find_None_iff)

lemma str_includes_sublist: "str_includes s q = sublist q s"
  by (induction s) (simp_all add: sublist_Cons_right)

lemma split_path_plain:
  "CHR ''/'' \<notin> set s \<Longrightarrow> seg @ s \<noteq> [] \<Longrightarrow> split_path seg s = [seg @ s]"
  by (induction s arbitrary: seg) auto

lemma doc_key_plain:
  assumes "s \<noteq> []" and "CHR ''/'' \<notin> set s"
  shows "doc_key (Str s) = Inr s"
proof -
  have "\<not> sublist ''//'' s"
    using assms(2) set_mono_sublist [of "''//''" s] by auto
  moreover have "split_path [] s = [s]"
    using assms split_path_plain [of s "[]"] by simp
  ultimately show ?thesis
    by (simp add: str_includes_sublist)
qed

lemma update_product_issued:
  "user st = Some uid \<Longrightarrow> productId \<noteq> [] \<Longrightarrow> CHR ''/'' \<notin> set productId \<Longrightarrow>
     not_awaited st (handleUpdateProduct st productId field val) =
       (st, [SetDoc uid productId [(field, val)] True])"
  by (simp add: handleUpdateProduct_def not_awaited_def doc_key_plain del: doc_key.simps)

section \<open>The competitors of a product\<close>

text \<open>
  Claim C5. Let a user be signed in, let the product with the given id, a document key
  (not empty, no slash), be in the local collection and let its competitors be the array
  \<open>cs\<close>. Updating field \<open>f\<close> of
  competitor \<open>i\<close>, for an index \<open>i\<close> inside the array, changes no state hook and issues
  one merge write of the field \<^verbatim>\<open>competitors\<close> alone. The array \<open>cs'\<close> it writes is
  as long as \<open>cs\<close> and equal to it at every index but \<open>i\<close>; its element \<open>i\<close> is an
  object that has the new value under \<open>f\<close> and, under every other key, what element
  \<open>i\<close> of \<open>cs\<close> had; when that element was an object, the new one is this object
  with \<open>f\<close> set.
\<close>

theorem update_competitor_frame:
  assumes "user st = Some uid" and "productId \<noteq> []" and "CHR ''/'' \<notin> set productId"
    and "find_product (products st) productId = Some product"
    and "get_field product ''competitors'' = Arr cs"
    and "i < length cs"
  shows "\<exists>cs' elem.
           handleUpdateCompetitor st productId i f v =
             Inr (st, [SetDoc uid productId [(''competitors'', Arr cs')] True])
         \<and> length cs' = length cs
         \<and> (\<forall>j < length cs. j \<noteq> i \<longrightarrow> cs' ! j = cs ! j)
         \<and> cs' ! i = Obj elem
         \<and> get_field elem f = v
         \<and> (\<forall>g. g \<noteq> f \<longrightarrow> get_field elem g = get_field (object_spread (cs ! i)) g)
         \<and> (\<forall>ob. cs ! i = Obj ob \<longrightarrow> elem = AList.update f v ob)"
proof -
  let ?elem = "AList.update f v (object_spread (cs ! i))"
  let ?cs' = "cs[i := Obj ?elem]"
  have run: "handleUpdateCompetitor st productId i f v =
      Inr (st, [SetDoc uid productId [(''competitors'', Arr ?cs')] True])"
    using assms
    by (simp add: handleUpdateCompetitor_def update_product_issued array_set_def array_get_def)
  have others: "\<forall>j < length cs. j \<noteq> i \<longrightarrow> ?cs' ! j = cs ! j"
    by simp
  have target: "?cs' ! i = Obj ?elem"
    using assms(6) by simp
  have rest: "\<forall>g. g \<noteq> f \<longrightarrow> get_field ?elem g = get_field (object_spread (cs ! i)) g"
    by (simp add: get_field_update)
  have "get_field ?elem f = v"
    by (simp add: get_field_update)
  moreover have "\<forall>ob. cs ! i = Obj ob \<longrightarrow> ?elem = AList.update f v ob"
    by simp
  ultimately show ?thesis
    using run others target rest by (intro exI[of _ ?cs'] exI[of _ ?elem]) simp
qed

text \<open>
  The scenario of the specification: setting the brand of competitor 1 of the first
  example product leaves competitors 0 and 2 as they were.
\<close>

theorem update_competitor_frame_witness:
  "\<exists>cs' elem.
     handleUpdateCompetitor example_app ''p1'' 1 ''brand'' (Str ''Acme'') =
       Inr (example_app, [SetDoc ''u1'' ''p1'' [(''competitors'', Arr cs')] True])
   \<and> length cs' = 3
   \<and> cs' ! 0 = Obj [(''brand'', Str ''A''), (''adLink'', Str ''a'')]
   \<and> cs' ! 2 = Obj [(''brand'', Str ''C''), (''adLink'', Str ''c'')]
   \<and> cs' ! 1 = Obj elem
   \<and> elem = [(''brand'', Str ''Acme''), (''adLink'', Str ''b'')]"
proof -
  let ?cs = "[Obj [(''brand'', Str ''A''), (''adLink'', Str ''a'')],
              Obj [(''brand'', Str ''B''), (''adLink'', Str ''b'')],
              Obj [(''brand'', Str ''C''), (''adLink'', Str ''c'')]]"
  have u: "user example_app = Some ''u1''"
    by (simp add: example_app_def)
  have n: "''p1'' \<noteq> []" "CHR ''/'' \<notin> set ''p1''"
    by simp_all
  have p: "find_product (products example_app) ''p1'' = Some widget"
    by (simp add: example_app_def find_product_def widget_def get_field_def)
  have c: "get_field widget ''competitors'' = Arr ?cs"
    by (simp add: widget_def get_field_def)
  have i: "1 < length ?cs"
    by simp
  from update_competitor_frame [OF u n p c i, of "''brand''" "Str ''Acme''"]
  obtain cs' elem where
    "handleUpdateCompetitor example_app ''p1'' 1 ''brand'' (Str ''Acme'') =
       Inr (example_app, [SetDoc ''u1'' ''p1'' [(''competitors'', Arr cs')] True])"
    "length cs' = length ?cs"
    "\<forall>j < length ?cs. j \<noteq> 1 \<longrightarrow> cs' ! j = ?cs ! j"
    "cs' ! 1 = Obj elem"
    "\<forall>ob. ?cs ! 1 = Obj ob \<longrightarrow> elem = AList.update ''brand'' (Str ''Acme'') ob"
    by blast
  then show ?thesis
    by (intro exI[of _ cs'] exI[of _ elem]) simp
qed

section \<open>The links of a product\<close>

lemma member_id_readable: "readable link \<Longrightarrow> member_id link = Inr (link_id link)"
  by (cases link) (simp_all add: readable_def link_id_def)

lemma delete_links_filter:
  "list_all readable links \<Longrightarrow>
     delete_links linkId links = Inr (filter (\<lambda>l. link_id l \<noteq> Str linkId) links)"
  by (induction links) (simp_all add: member_id_readable)

lemma update_links_map:
  "list_all readable links \<Longrightarrow>
     update_links linkId f v links =
       Inr (map (\<lambda>l. if link_id l = Str linkId
                     then Obj (AList.update f v (object_spread l)) else l) links)"
  by (induction links) (simp_all add: member_id_readable)

lemma links_of_Arr:
  "get_field product ''otherLinks'' = Arr links \<Longrightarrow> links_of product = Inr links"
  by (simp add: links_of_def or_else_def)

text \<open>
  Claim C6. Let a user be signed in, let the product with the given id, a document key
  (not empty, no slash), be in the local collection, let its links be the array \<open>links\<close> of readable values (none is
  undefined or null) and let some link have the id \<open>linkId\<close>. Deleting that link changes
  no state hook and issues one merge write of the field \<^verbatim>\<open>otherLinks\<close> alone. The
  array \<open>kept\<close> it writes holds exactly the links whose id is not \<open>linkId\<close>, each
  unchanged and in the order of \<open>links\<close>; their ids are the other ids of \<open>links\<close> in
  their order, and \<open>kept\<close> is shorter than \<open>links\<close>.
\<close>

theorem delete_link_frame:
  assumes "user st = Some uid" and "productId \<noteq> []" and "CHR ''/'' \<notin> set productId"
    and "find_product (products st) productId = Some product"
    and "get_field product ''otherLinks'' = Arr links"
    and "list_all readable links"
    and "Str linkId \<in> link_id ` set links"
  shows "\<exists>kept.
           handleDeleteOtherLink st productId linkId =
             Inr (st, [SetDoc uid productId [(''otherLinks'', Arr kept)] True])
         \<and> kept = filter (\<lambda>l. link_id l \<noteq> Str linkId) links
         \<and> Str linkId \<notin> link_id ` set kept
         \<and> set kept = {l \<in> set links. link_id l \<noteq> Str linkId}
         \<and> subseq kept links
         \<and> map link_id kept = filter (\<lambda>i. i \<noteq> Str linkId) (map link_id links)
         \<and> length kept < length links"
proof -
  let ?kept = "filter (\<lambda>l. link_id l \<noteq> Str linkId) links"
  have "handleDeleteOtherLink st productId linkId =
      Inr (st, [SetDoc uid productId [(''otherLinks'', Arr ?kept)] True])"
    using assms(1-6)
    by (simp add: handleDeleteOtherLink_def update_product_issued links_of_Arr
        delete_links_filter)
  moreover have "Str linkId \<notin> link_id ` set ?kept"
    by auto
  moreover have "set ?kept = {l \<in> set links. link_id l \<noteq> Str linkId}"
    by auto
  moreover have "subseq ?kept links"
    by simp
  moreover have "map link_id ?kept = filter (\<lambda>i. i \<noteq> Str linkId) (map link_id links)"
    by (simp add: filter_map comp_def)
  moreover have "length ?kept < length links"
    using assms(7) by (auto intro!: length_filter_less)
  ultimately show ?thesis
    by blast
qed

text \<open>
  The scenario of the specification: deleting the second of the three links of the
  first example product leaves the first and the third, in this order.
\<close>

theorem delete_link_frame_witness:
  "handleDeleteOtherLink example_app ''p1'' ''l2'' =
     Inr (example_app,
       [SetDoc ''u1'' ''p1''
          [(''otherLinks'',
            Arr [Obj [(''id'', Str ''l1''), (''title'', Str ''one''), (''url'', Str ''x'')],
                 Obj [(''id'', Str ''l3''), (''title'', Str ''three''), (''url'', Str ''z'')]])]
          True])"
proof -
  let ?links = "[Obj [(''id'', Str ''l1''), (''title'', Str ''one''), (''url'', Str ''x'')],
                 Obj [(''id'', Str ''l2''), (''title'', Str ''two''), (''url'', Str ''y'')],
                 Obj [(''id'', Str ''l3''), (''title'', Str ''three''), (''url'', Str ''z'')]]"
  have u: "user example_app = Some ''u1''"
    by (simp add: example_app_def)
  have n: "''p1'' \<noteq> []" "CHR ''/'' \<notin> set ''p1''"
    by simp_all
  have p: "find_product (products example_app) ''p1'' = Some widget"
    by (simp add: example_app_def find_product_def widget_def get_field_def)
  have l: "get_field widget ''otherLinks'' = Arr ?links"
    by (simp add: widget_def get_field_def)
  have r: "list_all readable ?links"
    by (simp add: readable_def)
  have m: "Str ''l2'' \<in> link_id ` set ?links"
    by (simp add: link_id_def get_field_def)
  from delete_link_frame [OF u n p l r m]
  obtain kept where
    "handleDeleteOtherLink example_app ''p1'' ''l2'' =
       Inr (example_app, [SetDoc ''u1'' ''p1'' [(''otherLinks'', Arr kept)] True])"
    "kept = filter (\<lambda>l. link_id l \<noteq> Str ''l2'') ?links"
    by blast
  then show ?thesis
    by (simp add: link_id_def get_field_def)
qed

text \<open>
  Claim C9. When no product of the local collection has the given product id, each of
  the four handlers (update a competitor field, add a link, update a link field, delete
  a link) returns without an error, leaves every state hook as it is and issues no call
  of the store.
\<close>

theorem missing_product_noop:
  assumes "\<forall>p \<in> set (products st). get_field p ''id'' \<noteq> Str productId"
  shows "handleUpdateCompetitor st productId compIndex field val = Inr (st, [])
       \<and> handleAddOtherLink st newId productId = Inr (st, [])
       \<and> handleUpdateOtherLink st productId linkId field val = Inr (st, [])
       \<and> handleDeleteOtherLink st productId linkId = Inr (st, [])"
  using find_product_None [OF assms]
  by (simp add: handleUpdateCompetitor_def handleAddOtherLink_def handleUpdateOtherLink_def
      handleDeleteOtherLink_def)

theorem missing_product_noop_witness:
  "handleUpdateCompetitor example_app ''p9'' 1 ''brand'' (Str ''Acme'') = Inr (example_app, [])
   \<and> handleAddOtherLink example_app ''n1'' ''p9'' = Inr (example_app, [])
   \<and> handleUpdateOtherLink example_app ''p9'' ''l2'' ''title'' (Str ''new'') = Inr (example_app, [])
   \<and> handleDeleteOtherLink example_app ''p9'' ''l2'' = Inr (example_app, [])"
proof -
  have "\<forall>p \<in> set (products example_app). get_field p ''id'' \<noteq> Str ''p9''"
    by (simp add: example_app_def widget_def gadget_def get_field_def)
  from missing_product_noop [OF this] show ?thesis
    by blast
qed

text \<open>
  Claim C10. Let a user be signed in, let the product with the given id, a document key
  (not empty, no slash), be in the local collection, let its links be the array \<open>links\<close> of readable values and let no link
  have the id \<open>linkId\<close>. Then updating a field of the link \<open>linkId\<close> and deleting the
  link \<open>linkId\<close> both issue a merge write of \<^verbatim>\<open>otherLinks\<close> with the array \<open>links\<close>
  itself, so no link is altered.
\<close>

theorem absent_link_identity:
  assumes "user st = Some uid" and "productId \<noteq> []" and "CHR ''/'' \<notin> set productId"
    and "find_product (products st) productId = Some product"
    and "get_field product ''otherLinks'' = Arr links"
    and "list_all readable links"
    and "Str linkId \<notin> link_id ` set links"
  shows "handleUpdateOtherLink st productId linkId field val =
           Inr (st, [SetDoc uid productId [(''otherLinks'', Arr links)] True])
       \<and> handleDeleteOtherLink st productId linkId =
           Inr (st, [SetDoc uid productId [(''otherLinks'', Arr links)] True])"
proof -
  have "map (\<lambda>l. if link_id l = Str linkId
                  then Obj (AList.update field val (object_spread l)) else l) links = links"
    using assms(7) by (induction links) auto
  moreover have "filter (\<lambda>l. link_id l \<noteq> Str linkId) links = links"
    using assms(7) by (induction links) auto
  ultimately show ?thesis
    using assms(1-6)
    by (simp add: handleUpdateOtherLink_def handleDeleteOtherLink_def update_product_issued
        links_of_Arr delete_links_filter update_links_map)
qed

theorem absent_link_identity_witness:
  "handleUpdateOtherLink example_app ''p1'' ''l9'' ''title'' (Str ''new'') =
     Inr (example_app,
       [SetDoc ''u1'' ''p1'' [(''otherLinks'', get_field widget ''otherLinks'')] True])
   \<and> handleDeleteOtherLink example_app ''p1'' ''l9'' =
     Inr (example_app,
       [SetDoc ''u1'' ''p1'' [(''otherLinks'', get_field widget ''otherLinks'')] True])"
proof -
  let ?links = "[Obj [(''id'', Str ''l1''), (''title'', Str ''one''), (''url'', Str ''x'')],
                 Obj [(''id'', Str ''l2''), (''title'', Str ''two''), (''url'', Str ''y'')],
                 Obj [(''id'', Str ''l3''), (''title'', Str ''three''), (''url'', Str ''z'')]]"
  have u: "user example_app = Some ''u1''"
    by (simp add: example_app_def)
  have n: "''p1'' \<noteq> []" "CHR ''/'' \<notin> set ''p1''"
    by simp_all
  have p: "find_product (products example_app) ''p1'' = Some widget"
    by (simp add: example_app_def find_product_def widget_def get_field_def)
  have l: "get_field widget ''otherLinks'' = Arr ?links"
    by (simp add: widget_def get_field_def)
  have r: "list_all readable ?links"
    by (simp add: readable_def)
  have m: "Str ''l9'' \<notin> link_id ` set ?links"
    by (simp add: link_id_def get_field_def)
  from absent_link_identity [OF u n p l r m, of "''title''" "Str ''new''"] l show ?thesis
    by simp
qed

section \<open>Deleting a product\<close>

text \<open>
  Claim C4, as stated, fails: with the first example product selected, a successful
  delete of the second one, which is not selected, clears the selection.
\<close>

theorem delete_other_product_counterexample:
  "selectedId example_app = Some ''p1''
   \<and> selectedId (fst (handleDeleteProduct True example_app ''p2'')) = None"
  by (simp add: example_app_def handleDeleteProduct_def)

text \<open>
  Claim C4, amended. For every product id and every state, deleting a product clears
  the selection exactly when a user is signed in, the id makes a document reference and
  the remote delete succeeds, whichever product was selected; otherwise the selection
  is unchanged. No other state hook changes.
\<close>

theorem delete_product_selection:
  "fst (handleDeleteProduct deleted st ident) =
     (if user st \<noteq> None \<and> \<not> isl (doc_key (Str ident)) \<and> deleted
      then st\<lparr>selectedId := None\<rparr> else st)"
  by (simp add: handleDeleteProduct_def del: doc_key.simps split: option.splits sum.splits)

theorem delete_product_selection_witness:
  "selectedId (fst (handleDeleteProduct True example_app ''p1'')) = None
   \<and> selectedId (fst (handleDeleteProduct False example_app ''p1'')) = Some ''p1''"
  using delete_product_selection [of True example_app "''p1''"]
    delete_product_selection [of False example_app "''p1''"]
  by (simp add: example_app_def)

section \<open>The projection of a snapshot\<close>

lemma created_Some_key: "created p \<noteq> None \<Longrightarrow> created p = Some (created_key p)"
  by (auto simp: created_key_def)

lemma insert_sorted_insort:
  "\<forall>p \<in> set (x # ys). created p \<noteq> None \<Longrightarrow>
     insert_sorted compare_created x ys = Some (insort_key (\<lambda>p. - created_key p) x ys)"
proof (induction ys)
  case Nil
  show ?case by simp
next
  case (Cons y ys)
  then have x: "created x = Some (created_key x)" and y: "created y = Some (created_key y)"
    by (simp_all add: created_Some_key)
  from Cons have "insert_sorted compare_created x ys =
      Some (insort_key (\<lambda>p. - created_key p) x ys)"
    by simp
  moreover have "compare_created x y = Some (created_key y - created_key x)"
    using x y by (simp add: compare_created_def)
  ultimately show ?case
    by simp
qed

lemma js_sort_sort_key:
  "\<forall>p \<in> set xs. created p \<noteq> None \<Longrightarrow>
     js_sort compare_created xs = Some (sort_key (\<lambda>p. - created_key p) xs)"
proof (induction xs)
  case Nil
  show ?case by simp
next
  case (Cons x xs)
  then have "js_sort compare_created xs = Some (sort_key (\<lambda>p. - created_key p) xs)"
    by simp
  moreover have "\<forall>p \<in> set (x # sort_key (\<lambda>p. - created_key p) xs). created p \<noteq> None"
    using Cons.prems by simp
  ultimately show ?case
    by (simp add: insert_sorted_insort del: set_simps)
qed

lemma created_item_of: "created (item_of d) = created (snd d)"
  by (simp add: created_def item_of_def get_field_update)

lemma onSnapshot_products:
  assumes "onSnapshot parse accepts uid st ls snapshot = Some out"
  shows "js_sort compare_created (map item_of snapshot) = Some (products (state out))"
  using assms
  by (auto simp: onSnapshot_def Let_def split: option.splits if_splits jsval.splits prod.splits)

lemma onSnapshot_defined:
  assumes "js_sort compare_created (map item_of snapshot) = Some items"
  shows "\<exists>out. onSnapshot parse accepts uid st ls snapshot = Some out"
  using assms
  by (auto simp: onSnapshot_def Let_def split: option.splits if_splits jsval.splits prod.splits)

text \<open>
  Claim C3. Let every document of the snapshot have a \<^verbatim>\<open>createdAt\<close> that is
  missing, falsy, a number or a boolean. Then the callback returns, and the product collection it
  sets is the stable sort, by descending sort key, of the records of the documents: it
  is given by the snapshot alone, whatever the collection was before, it has the record
  of every document and nothing else, and it is in descending order of the sort key.
  The record of a document has the key of the document as its \<^verbatim>\<open>id\<close>, whatever
  \<^verbatim>\<open>id\<close> the body holds, and the fields of the body otherwise. The sort key is 0
  for a falsy \<^verbatim>\<open>createdAt\<close> and the number itself for a number.
\<close>

theorem snapshot_projection:
  assumes "\<forall>d \<in> set snapshot. created (snd d) \<noteq> None"
  shows "\<exists>out. onSnapshot parse accepts uid st ls snapshot = Some out
       \<and> products (state out) = sort_key (\<lambda>p. - created_key p) (map item_of snapshot)
       \<and> mset (products (state out)) = mset (map item_of snapshot)
       \<and> sorted_wrt (\<lambda>a b. created_key b \<le> created_key a) (products (state out))
       \<and> (\<forall>d \<in> set snapshot. get_field (item_of d) ''id'' = Str (fst d)
            \<and> (\<forall>f. f \<noteq> ''id'' \<longrightarrow> get_field (item_of d) f = get_field (snd d) f))
       \<and> (\<forall>p. \<not> truthy (get_field p ''createdAt'') \<longrightarrow> created_key p = 0)
       \<and> (\<forall>p n. get_field p ''createdAt'' = Num n \<longrightarrow> created_key p = n)"
proof -
  let ?items = "sort_key (\<lambda>p. - created_key p) (map item_of snapshot)"
  have sorted: "js_sort compare_created (map item_of snapshot) = Some ?items"
    using assms by (intro js_sort_sort_key) (simp add: created_item_of)
  then obtain out where out: "onSnapshot parse accepts uid st ls snapshot = Some out"
    using onSnapshot_defined by blast
  with sorted have items: "products (state out) = ?items"
    using onSnapshot_products by fastforce
  have "sorted (map (\<lambda>p. - created_key p) ?items)"
    by (rule sorted_sort_key)
  then have desc: "sorted_wrt (\<lambda>a b. created_key b \<le> created_key a) ?items"
    by (simp add: sorted_map)
  have ids: "\<forall>d \<in> set snapshot. get_field (item_of d) ''id'' = Str (fst d)
      \<and> (\<forall>f. f \<noteq> ''id'' \<longrightarrow> get_field (item_of d) f = get_field (snd d) f)"
    by (simp add: item_of_def get_field_update)
  have falsy: "\<forall>p. \<not> truthy (get_field p ''createdAt'') \<longrightarrow> created_key p = 0"
    by (simp add: created_key_def created_def or_else_def)
  have num: "\<forall>p n. get_field p ''createdAt'' = Num n \<longrightarrow> created_key p = n"
    by (simp add: created_key_def created_def or_else_def)
  from out items desc ids falsy num show ?thesis
    by simp
qed

text \<open>
  The scenario of the specification: documents created at 100, missing and 300 come out
  in the order 300, 100, missing, and the second record has its key \<^verbatim>\<open>b\<close> as id.
\<close>

theorem snapshot_projection_witness:
  "\<exists>out. onSnapshot example_parse (\<lambda>r. True) ''u1'' example_app Map.empty example_snapshot
            = Some out
     \<and> products (state out) =
         [[(''name'', Str ''third''), (''createdAt'', Num 300), (''id'', Str ''c'')],
          [(''name'', Str ''first''), (''createdAt'', Num 100), (''id'', Str ''a'')],
          [(''id'', Str ''b''), (''name'', Str ''second'')]]"
proof -
  have keys: "\<forall>d \<in> set example_snapshot. created (snd d) \<noteq> None"
    by (simp add: example_snapshot_def created_def get_field_def or_else_def)
  have "sort_key (\<lambda>p. - created_key p) (map item_of example_snapshot) =
         [[(''name'', Str ''third''), (''createdAt'', Num 300), (''id'', Str ''c'')],
          [(''name'', Str ''first''), (''createdAt'', Num 100), (''id'', Str ''a'')],
          [(''id'', Str ''b''), (''name'', Str ''second'')]]"
    by (simp add: example_snapshot_def item_of_def created_key_def created_def get_field_def
        or_else_def)
  with snapshot_projection [OF keys, of example_parse "\<lambda>r. True" "''u1''" example_app Map.empty]
  show ?thesis
    by auto
qed

section \<open>The migration of the local cache\<close>

lemma issuable_Obj:
  "issuable accepts (Obj data) =
     (case doc_key (get_field data ''id'') of Inl e \<Rightarrow> False | Inr k \<Rightarrow> accepts data)"
  by (simp add: issuable_def)

lemma issuable_other: "\<forall>data. rec \<noteq> Obj data \<Longrightarrow> \<not> issuable accepts rec"
  by (cases rec) (simp_all add: issuable_def)

lemma migration_write_Obj:
  "doc_key (get_field data ''id'') = Inr k \<Longrightarrow>
     migration_write uid (Obj data) = SetDoc uid k data False"
  by (simp add: migration_write_def record_key_def link_id_def)

lemma migrate_prefix:
  "fst (migrate accepts uid recs) = map (migration_write uid) (takeWhile (issuable accepts) recs)
   \<and> (snd (migrate accepts uid recs) = None) = list_all (issuable accepts) recs"
proof (induction recs)
  case Nil
  show ?case by simp
next
  case (Cons rec recs)
  show ?case
  proof (cases rec)
    case (Obj data)
    show ?thesis
    proof (cases "doc_key (get_field data ''id'')")
      case (Inl e)
      with Obj show ?thesis
        by (simp add: issuable_Obj)
    next
      case (Inr k)
      with Obj Cons show ?thesis
        by (cases "migrate accepts uid recs") (simp add: issuable_Obj migration_write_Obj)
    qed
  qed (simp_all add: issuable_other)
qed

lemma apply_cmds_other_key:
  "k \<notin> record_key ` set recs \<Longrightarrow>
     apply_cmds ok r0 (map (migration_write uid) recs) (uid, k) = r0 (uid, k)"
  by (induction recs arbitrary: r0) (auto simp: migration_write_def)

lemma apply_cmds_written:
  "distinct (map record_key recs) \<Longrightarrow> rec \<in> set recs \<Longrightarrow>
     \<forall>c \<in> set (map (migration_write uid) recs). ok c \<Longrightarrow>
     apply_cmds ok r0 (map (migration_write uid) recs) (uid, record_key rec) =
       Some (object_spread rec)"
proof (induction recs arbitrary: r0)
  case Nil
  then show ?case by simp
next
  case (Cons x xs)
  show ?case
  proof (cases "rec = x")
    case True
    with Cons.prems have "record_key rec \<notin> record_key ` set xs"
      by simp
    then have "apply_cmds ok (apply_cmd r0 (migration_write uid x))
        (map (migration_write uid) xs) (uid, record_key rec) =
        apply_cmd r0 (migration_write uid x) (uid, record_key rec)"
      by (rule apply_cmds_other_key)
    moreover have "apply_cmd r0 (migration_write uid x) (uid, record_key x) =
        Some (object_spread x)"
      by (simp add: migration_write_def)
    ultimately show ?thesis
      using True Cons.prems(3) by simp
  next
    case False
    with Cons.prems have "distinct (map record_key xs)" "rec \<in> set xs"
      "\<forall>c \<in> set (map (migration_write uid) xs). ok c"
      by simp_all
    then have "apply_cmds ok (apply_cmd r0 (migration_write uid x))
        (map (migration_write uid) xs) (uid, record_key rec) = Some (object_spread rec)"
      by (rule Cons.IH)
    with Cons.prems(3) show ?thesis
      by simp
  qed
qed

lemma js_sort_Nil: "js_sort cmp xs = Some [] \<Longrightarrow> xs = []"
proof (cases xs)
  case Nil
  then show ?thesis by simp
next
  case (Cons x xs')
  assume "js_sort cmp xs = Some []"
  with Cons obtain ys where "insert_sorted cmp x ys = Some []"
    by (auto split: option.splits)
  then show ?thesis
    by (cases ys) (auto split: option.splits if_splits)
qed

lemma migration_only_when:
  assumes "onSnapshot parse accepts uid st ls snapshot = Some out"
    and "issued out \<noteq> [] \<or> storage out \<noteq> ls \<or> thrown out \<noteq> None"
  shows "snapshot = [] \<and> (\<exists>s. ls LOCAL_STORAGE_KEY = Some s \<and> s \<noteq> [])"
  using assms
  by (auto simp: onSnapshot_def Let_def dest: js_sort_Nil
      split: option.splits if_splits jsval.splits prod.splits)

lemma migration_effect:
  assumes "ls LOCAL_STORAGE_KEY = Some s" and "s \<noteq> []" and "parse s = Some (Arr recs)"
  shows "\<exists>out. onSnapshot parse accepts uid st ls [] = Some out
       \<and> state out = st\<lparr>products := [], loading := False\<rparr>
       \<and> issued out = map (migration_write uid) (takeWhile (issuable accepts) recs)
       \<and> (if list_all (issuable accepts) recs
           then storage out = ls(LOCAL_STORAGE_KEY := None) \<and> thrown out = None
           else storage out = ls \<and> thrown out \<noteq> None)"
proof (cases "migrate accepts uid recs")
  case (Pair cs e)
  with migrate_prefix [of accepts uid recs]
  have cs: "cs = map (migration_write uid) (takeWhile (issuable accepts) recs)"
    and e: "(e = None) = list_all (issuable accepts) recs"
    by simp_all
  show ?thesis
  proof (cases e)
    case None
    with Pair assms cs e show ?thesis
      by (simp add: onSnapshot_def)
  next
    case (Some err)
    with Pair assms cs e show ?thesis
      by (simp add: onSnapshot_def)
  qed
qed

lemma record_key_plain:
  "get_field data ''id'' = Str k \<Longrightarrow> k \<noteq> [] \<Longrightarrow> CHR ''/'' \<notin> set k \<Longrightarrow>
     record_key (Obj data) = k"
  by (simp add: record_key_def link_id_def doc_key_plain del: doc_key.simps)

text \<open>
  Claim C2, as stated, fails: the cache is not cleared unconditionally. With an empty
  snapshot and a cache whose second record has no \<^verbatim>\<open>id\<close>, the callback issues the
  write of the first record, throws in the second round of the loop and leaves the
  cache as it is.
\<close>

theorem migration_keeps_cache_counterexample:
  "map_option issued (onSnapshot broken_parse (\<lambda>r. True) ''u1'' example_app broken_storage []) =
     Some [SetDoc ''u1'' ''p1'' [(''id'', Str ''p1''), (''name'', Str ''Widget Pro'')] False]
   \<and> map_option thrown (onSnapshot broken_parse (\<lambda>r. True) ''u1'' example_app broken_storage [])
       \<noteq> Some None
   \<and> map_option storage (onSnapshot broken_parse (\<lambda>r. True) ''u1'' example_app broken_storage [])
       = Some broken_storage
   \<and> broken_storage LOCAL_STORAGE_KEY = Some broken_text"
  by (simp add: onSnapshot_def broken_storage_def broken_parse_def broken_text_def
      get_field_def)

text \<open>
  Claim C2, amended. A run of the snapshot callback issues a write, changes the local
  storage or throws only when the snapshot has no document and the local storage holds a
  non-empty text under the fixed key. When it does and the text parses to an array, the
  callback takes the records in turn and issues for each one write without merge of the
  whole record under the key of its id, as long as the records can be issued (each is
  an object whose id makes a document reference and whose payload the store accepts).
  When all records can be issued, it then removes the key from the local storage, before
  the store answers any write, so whichever writes succeed later. When one cannot, the
  loop throws there: the records from that one on are not written and the cache stays.
  When all records can be issued, their keys are distinct and the writes succeed, the
  remote collection of the user holds every record under its key afterwards, whatever it
  held before. The key of an id without a slash is the id.
\<close>

theorem migration_one_shot:
  "(\<forall>out. onSnapshot parse accepts uid st ls snapshot = Some out
        \<and> (issued out \<noteq> [] \<or> storage out \<noteq> ls \<or> thrown out \<noteq> None)
      \<longrightarrow> snapshot = [] \<and> (\<exists>s. ls LOCAL_STORAGE_KEY = Some s \<and> s \<noteq> []))
   \<and> (\<forall>s recs. snapshot = [] \<and> ls LOCAL_STORAGE_KEY = Some s \<and> s \<noteq> []
        \<and> parse s = Some (Arr recs)
      \<longrightarrow> (\<exists>out. onSnapshot parse accepts uid st ls snapshot = Some out
            \<and> state out = st\<lparr>products := [], loading := False\<rparr>
            \<and> issued out = map (migration_write uid) (takeWhile (issuable accepts) recs)
            \<and> (if list_all (issuable accepts) recs
                then storage out = ls(LOCAL_STORAGE_KEY := None) \<and> thrown out = None
                else storage out = ls \<and> thrown out \<noteq> None)))
   \<and> (\<forall>recs ok r0. distinct (map record_key recs)
        \<and> (\<forall>c \<in> set (map (migration_write uid) recs). ok c)
      \<longrightarrow> (\<forall>rec \<in> set recs.
            apply_cmds ok r0 (map (migration_write uid) recs) (uid, record_key rec)
              = Some (object_spread rec)))
   \<and> (\<forall>data k. get_field data ''id'' = Str k \<and> k \<noteq> [] \<and> CHR ''/'' \<notin> set k
      \<longrightarrow> record_key (Obj data) = k)"
proof (intro conjI allI impI)
  fix out
  assume "onSnapshot parse accepts uid st ls snapshot = Some out
    \<and> (issued out \<noteq> [] \<or> storage out \<noteq> ls \<or> thrown out \<noteq> None)"
  then have "snapshot = [] \<and> (\<exists>s. ls LOCAL_STORAGE_KEY = Some s \<and> s \<noteq> [])"
    using migration_only_when by blast
  then show "snapshot = []" and "\<exists>s. ls LOCAL_STORAGE_KEY = Some s \<and> s \<noteq> []"
    by simp_all
next
  fix s recs
  assume "snapshot = [] \<and> ls LOCAL_STORAGE_KEY = Some s \<and> s \<noteq> []
    \<and> parse s = Some (Arr recs)"
  then show "\<exists>out. onSnapshot parse accepts uid st ls snapshot = Some out
      \<and> state out = st\<lparr>products := [], loading := False\<rparr>
      \<and> issued out = map (migration_write uid) (takeWhile (issuable accepts) recs)
      \<and> (if list_all (issuable accepts) recs
          then storage out = ls(LOCAL_STORAGE_KEY := None) \<and> thrown out = None
          else storage out = ls \<and> thrown out \<noteq> None)"
    using migration_effect [of ls s parse recs accepts uid st] by simp
next
  fix recs ok r0
  assume "distinct (map record_key recs)
    \<and> (\<forall>c \<in> set (map (migration_write uid) recs). ok c)"
  then show "\<forall>rec \<in> set recs.
      apply_cmds ok r0 (map (migration_write uid) recs) (uid, record_key rec)
        = Some (object_spread rec)"
    using apply_cmds_written [of recs _ uid ok r0] by blast
next
  fix data k
  assume "get_field data ''id'' = Str k \<and> k \<noteq> [] \<and> CHR ''/'' \<notin> set k"
  then show "record_key (Obj data) = k"
    using record_key_plain by blast
qed

text \<open>
  The scenario of the specification: an empty snapshot and a cache of two records. Both
  are written under their ids and the cache is cleared; when the store takes the
  writes, both records are in the collection, and when it rejects them all, the
  collection stays as it was and the cache is cleared all the same.
\<close>

theorem migration_one_shot_witness:
  "\<exists>out. onSnapshot example_parse (\<lambda>r. True) ''u1'' example_app example_storage [] = Some out
     \<and> issued out =
         [SetDoc ''u1'' ''p1'' [(''id'', Str ''p1''), (''name'', Str ''Widget Pro'')] False,
          SetDoc ''u1'' ''p2'' [(''id'', Str ''p2''), (''name'', Str ''Gadget'')] False]
     \<and> thrown out = None
     \<and> storage out LOCAL_STORAGE_KEY = None
     \<and> apply_cmds (\<lambda>c. True) Map.empty (issued out) (''u1'', ''p1'') =
         Some [(''id'', Str ''p1''), (''name'', Str ''Widget Pro'')]
     \<and> apply_cmds (\<lambda>c. True) Map.empty (issued out) (''u1'', ''p2'') =
         Some [(''id'', Str ''p2''), (''name'', Str ''Gadget'')]
     \<and> apply_cmds (\<lambda>c. False) Map.empty (issued out) = Map.empty"
proof -
  note fact = migration_one_shot
    [of example_parse "\<lambda>r. True" "''u1''" example_app example_storage "[]"]
  have keys: "map record_key cached_records = [''p1'', ''p2'']"
    by (simp add: cached_records_def record_key_def link_id_def get_field_def)
  have all: "list_all (issuable (\<lambda>r. True)) cached_records"
    by (simp add: cached_records_def issuable_def get_field_def)
  have writes: "map (migration_write ''u1'') cached_records =
      [SetDoc ''u1'' ''p1'' [(''id'', Str ''p1''), (''name'', Str ''Widget Pro'')] False,
       SetDoc ''u1'' ''p2'' [(''id'', Str ''p2''), (''name'', Str ''Gadget'')] False]"
    by (simp add: cached_records_def migration_write_def record_key_def link_id_def
        get_field_def)
  have trigger: "[] = [] \<and> example_storage LOCAL_STORAGE_KEY = Some cached_text
      \<and> cached_text \<noteq> [] \<and> example_parse cached_text = Some (Arr cached_records)"
    by (simp add: example_storage_def cached_text_def example_parse_def)
  from fact have "[] = [] \<and> example_storage LOCAL_STORAGE_KEY = Some cached_text
      \<and> cached_text \<noteq> [] \<and> example_parse cached_text = Some (Arr cached_records)
    \<longrightarrow> (\<exists>out. onSnapshot example_parse (\<lambda>r. True) ''u1'' example_app example_storage [] = Some out
          \<and> state out = example_app\<lparr>products := [], loading := False\<rparr>
          \<and> issued out =
              map (migration_write ''u1'') (takeWhile (issuable (\<lambda>r. True)) cached_records)
          \<and> (if list_all (issuable (\<lambda>r. True)) cached_records
              then storage out = example_storage(LOCAL_STORAGE_KEY := None) \<and> thrown out = None
              else storage out = example_storage \<and> thrown out \<noteq> None))"
    by blast
  moreover have "takeWhile (issuable (\<lambda>r. True)) cached_records = cached_records"
    using all by (simp add: takeWhile_eq_all_conv list_all_iff)
  ultimately obtain out where
    run: "onSnapshot example_parse (\<lambda>r. True) ''u1'' example_app example_storage [] = Some out"
    and out: "issued out = map (migration_write ''u1'') cached_records"
      "storage out = example_storage(LOCAL_STORAGE_KEY := None)" "thrown out = None"
    using trigger all by auto
  from fact have "distinct (map record_key cached_records)
      \<and> (\<forall>c \<in> set (map (migration_write ''u1'') cached_records). (\<lambda>c. True) c)
    \<longrightarrow> (\<forall>rec \<in> set cached_records.
          apply_cmds (\<lambda>c. True) Map.empty (map (migration_write ''u1'') cached_records)
            (''u1'', record_key rec) = Some (object_spread rec))"
    by blast
  with keys have "\<forall>rec \<in> set cached_records.
      apply_cmds (\<lambda>c. True) Map.empty (map (migration_write ''u1'') cached_records)
        (''u1'', record_key rec) = Some (object_spread rec)"
    by simp
  then have
    "apply_cmds (\<lambda>c. True) Map.empty (map (migration_write ''u1'') cached_records) (''u1'', ''p1'')
       = Some [(''id'', Str ''p1''), (''name'', Str ''Widget Pro'')]"
    "apply_cmds (\<lambda>c. True) Map.empty (map (migration_write ''u1'') cached_records) (''u1'', ''p2'')
       = Some [(''id'', Str ''p2''), (''name'', Str ''Gadget'')]"
    by (simp_all add: cached_records_def record_key_def link_id_def get_field_def)
  with run out writes show ?thesis
    by (intro exI[of _ out]) simp
qed

section \<open>The filter of the product list\<close>

lemma toLowerCase_ascii:
  "toLowerCase ''@ABCDEFGHIJKLMNOPQRSTUVWXYZ[ abcxyz 0123456789''
     = ''@abcdefghijklmnopqrstuvwxyz[ abcxyz 0123456789''"
  by code_simp

lemma toLowerCase_latin1:
  "map of_char (toLowerCase (map char_of [191 ..< 224 :: nat])) =
     [191 :: nat] @ [224 ..< 247] @ [215] @ [248 ..< 255] @ [223]
   \<and> map of_char (toLowerCase (map char_of [224 ..< 256 :: nat])) = [224 ..< 256 :: nat]"
  by code_simp

lemma matches_cases:
  "matches query p = (if filter_throws query p then Inl TypeError else Inr (shown_by query p))"
proof (cases "get_field p ''name''")
  case (Str n)
  show ?thesis
  proof (cases "get_field p ''status''")
    case (Str s)
    with \<open>get_field p ''name'' = Str n\<close> show ?thesis
      by (simp add: matches_def filter_throws_def shown_by_def is_text_def text_of_def
          contains_folded_def str_includes_sublist)
  qed (simp_all add: Str matches_def filter_throws_def shown_by_def is_text_def text_of_def
      contains_folded_def str_includes_sublist)
qed (simp_all add: matches_def filter_throws_def is_text_def)

lemma filter_products_cases:
  "filter_products query ps =
     (if \<exists>p \<in> set ps. filter_throws query p then Inl TypeError
      else Inr (filter (shown_by query) ps))"
  by (induction ps) (simp_all add: matches_cases)

text \<open>
  Claim C7, as stated, fails in its example: with the products Widget Pro (Pending) and
  Gadget (Approved), the query \<^verbatim>\<open>pro\<close> returns both products and not Widget Pro alone,
  because the status \<^verbatim>\<open>approved\<close> contains \<^verbatim>\<open>pro\<close>.
\<close>

theorem filter_pro_counterexample:
  "searchQuery example_app = ''pro''
   \<and> products example_app = [widget, gadget]
   \<and> filteredProducts example_app = Inr [widget, gadget]
   \<and> filteredProducts example_app \<noteq> Inr [widget]"
  by code_simp

text \<open>
  Claim C7, amended. For every product collection and every query, the filter throws a
  TypeError when the collection has a product whose name is not a string, or whose name
  does not match the query and whose status is not a string. Otherwise it returns
  exactly the products whose name or status, case-folded, contains the case-folded query
  as a substring, in the order of the collection; this is a subsequence of the
  collection, and for the empty query it is the whole collection. (With the products
  Widget Pro, Pending, and Gadget, Approved, the query \<^verbatim>\<open>pro\<close> returns both, the query
  \<^verbatim>\<open>approved\<close> returns Gadget alone and the empty query returns both in their order.)
\<close>

theorem filter_subsequence:
  "filteredProducts st =
     (if \<exists>p \<in> set (products st). filter_throws (searchQuery st) p then Inl TypeError
      else Inr (filter (shown_by (searchQuery st)) (products st)))
   \<and> subseq (filter (shown_by (searchQuery st)) (products st)) (products st)
   \<and> (searchQuery st = [] \<longrightarrow> filter (shown_by (searchQuery st)) (products st) = products st)"
  by (simp add: filteredProducts_def filter_products_cases shown_by_def contains_folded_def
      toLowerCase_def)

text \<open>
  The examples of the specification for the queries \<^verbatim>\<open>approved\<close> and the empty
  query; a query in capitals; a name in Latin-1 capitals that the query matches in small
  letters; and a collection with a product without status, on which the filter throws.
\<close>

theorem filter_subsequence_witness:
  "filteredProducts (example_app\<lparr>searchQuery := ''approved''\<rparr>) = Inr [gadget]
   \<and> filteredProducts (example_app\<lparr>searchQuery := ''''\<rparr>) = Inr [widget, gadget]
   \<and> filteredProducts (example_app\<lparr>searchQuery := ''WIDGET''\<rparr>) = Inr [widget]
   \<and> filteredProducts ecole_app = Inr [ecole]
   \<and> filteredProducts untyped_app = Inl TypeError"
proof -
  have approved: "\<not> (\<exists>p \<in> set [widget, gadget]. filter_throws ''approved'' p)"
    "filter (shown_by ''approved'') [widget, gadget] = [gadget]"
    by code_simp+
  have empty: "\<not> (\<exists>p \<in> set [widget, gadget]. filter_throws '''' p)"
    "filter (shown_by '''') [widget, gadget] = [widget, gadget]"
    by code_simp+
  have capitals: "\<not> (\<exists>p \<in> set [widget, gadget]. filter_throws ''WIDGET'' p)"
    "filter (shown_by ''WIDGET'') [widget, gadget] = [widget]"
    by code_simp+
  have latin: "\<not> (\<exists>p \<in> set [ecole, gadget]. filter_throws (CHR 0xE9 # ''cole'') p)"
    "filter (shown_by (CHR 0xE9 # ''cole'')) [ecole, gadget] = [ecole]"
    by code_simp+
  have throws: "\<exists>p \<in> set (products untyped_app). filter_throws (searchQuery untyped_app) p"
    by code_simp
  from filter_subsequence [of "example_app\<lparr>searchQuery := ''approved''\<rparr>"] approved
  have 1: "filteredProducts (example_app\<lparr>searchQuery := ''approved''\<rparr>) = Inr [gadget]"
    by (simp add: example_app_def)
  from filter_subsequence [of "example_app\<lparr>searchQuery := ''''\<rparr>"] empty
  have 2: "filteredProducts (example_app\<lparr>searchQuery := ''''\<rparr>) = Inr [widget, gadget]"
    by (simp add: example_app_def)
  from filter_subsequence [of "example_app\<lparr>searchQuery := ''WIDGET''\<rparr>"] capitals
  have 3: "filteredProducts (example_app\<lparr>searchQuery := ''WIDGET''\<rparr>) = Inr [widget]"
    by (simp add: example_app_def)
  from filter_subsequence [of ecole_app] latin
  have 4: "filteredProducts ecole_app = Inr [ecole]"
    by (simp add: ecole_app_def)
  from filter_subsequence [of untyped_app] throws
  have 5: "filteredProducts untyped_app = Inl TypeError"
    by simp
  from 1 2 3 4 5 show ?thesis
    by simp
qed

end
